theory Spec2Isabelle
  imports Complex_Main "HOL-Library.Multiset"
begin

section \<open>Voxelisation of a triangle mesh: \<open>VoxelGenerator.py\<close>\<close>

text \<open>
  The embedding follows \<open>stl_to_voxel\<close> and \<open>point_near_triangle\<close> line by line.
  The mesh loader and the display are outside the model: \<open>stl_to_voxel\<close> starts from
  \<open>stl_mesh.vectors\<close>, the array of triangles of shape \<open>(n, 3, 3)\<close>.

  Numbers. Vertex coordinates are real numbers. The values numpy derives from them
  are modelled by \<open>npfloat\<close>: a real number, or one of the three special values that
  numpy's division produces instead of raising (\<open>x / 0\<close> is \<open>inf\<close>, \<open>-inf\<close> or \<open>nan\<close>,
  with a warning only). Arithmetic on finite values is exact: rounding, signed zeros
  and overflow of the binary formats are left out.
\<close>

subsection \<open>Errors\<close>

datatype np_error = ValueError | IndexError

subsection \<open>Floating-point values with numpy's special values\<close>

datatype npfloat = Fin real | PInf | NInf | NaN

fun fneg :: "npfloat \<Rightarrow> npfloat" where
  "fneg (Fin a) = Fin (- a)"
| "fneg PInf = NInf"
| "fneg NInf = PInf"
| "fneg NaN = NaN"

fun fadd :: "npfloat \<Rightarrow> npfloat \<Rightarrow> npfloat" where
  "fadd (Fin a) (Fin b) = Fin (a + b)"
| "fadd NaN y = NaN"
| "fadd x NaN = NaN"
| "fadd PInf NInf = NaN"
| "fadd NInf PInf = NaN"
| "fadd PInf y = PInf"
| "fadd NInf y = NInf"
| "fadd (Fin a) y = y"

definition fsub :: "npfloat \<Rightarrow> npfloat \<Rightarrow> npfloat" where
  "fsub x y = fadd x (fneg y)"

text \<open>The sign of an infinity times (or divided by) a finite value; zero counts as positive.\<close>

definition signed_inf :: "bool \<Rightarrow> npfloat" where
  "signed_inf positive = (if positive then PInf else NInf)"

fun fmul :: "npfloat \<Rightarrow> npfloat \<Rightarrow> npfloat" where
  "fmul (Fin a) (Fin b) = Fin (a * b)"
| "fmul NaN y = NaN"
| "fmul x NaN = NaN"
| "fmul (Fin a) PInf = (if a = 0 then NaN else signed_inf (0 < a))"
| "fmul (Fin a) NInf = (if a = 0 then NaN else signed_inf (a < 0))"
| "fmul PInf (Fin b) = (if b = 0 then NaN else signed_inf (0 < b))"
| "fmul NInf (Fin b) = (if b = 0 then NaN else signed_inf (b < 0))"
| "fmul PInf PInf = PInf"
| "fmul NInf NInf = PInf"
| "fmul PInf NInf = NInf"
| "fmul NInf PInf = NInf"

fun fdiv :: "npfloat \<Rightarrow> npfloat \<Rightarrow> npfloat" where
  "fdiv (Fin a) (Fin b) =
     (if b \<noteq> 0 then Fin (a / b)
      else if a = 0 then NaN
      else signed_inf (0 < a))"
| "fdiv NaN y = NaN"
| "fdiv x NaN = NaN"
| "fdiv (Fin a) PInf = Fin 0"
| "fdiv (Fin a) NInf = Fin 0"
| "fdiv PInf (Fin b) = signed_inf (0 \<le> b)"
| "fdiv NInf (Fin b) = signed_inf (b < 0)"
| "fdiv PInf y = NaN"
| "fdiv NInf y = NaN"

fun fsqrt :: "npfloat \<Rightarrow> npfloat" where
  "fsqrt (Fin a) = (if a < 0 then NaN else Fin (sqrt a))"
| "fsqrt PInf = PInf"
| "fsqrt NInf = NaN"
| "fsqrt NaN = NaN"

text \<open>\<open><\<close> on floats: every comparison with \<open>nan\<close> is false.\<close>

fun fless :: "npfloat \<Rightarrow> npfloat \<Rightarrow> bool" where
  "fless (Fin a) (Fin b) = (a < b)"
| "fless NaN y = False"
| "fless x NaN = False"
| "fless x NInf = False"
| "fless PInf y = False"
| "fless NInf y = True"
| "fless (Fin a) PInf = True"

text \<open>The reductions \<open>.min()\<close> and \<open>.max()\<close> of numpy propagate \<open>nan\<close>.\<close>

definition fmin :: "npfloat \<Rightarrow> npfloat \<Rightarrow> npfloat" where
  "fmin x y = (if x = NaN \<or> y = NaN then NaN else if fless y x then y else x)"

definition fmax :: "npfloat \<Rightarrow> npfloat \<Rightarrow> npfloat" where
  "fmax x y = (if x = NaN \<or> y = NaN then NaN else if fless x y then y else x)"

fun np_floor :: "npfloat \<Rightarrow> npfloat" where
  "np_floor (Fin a) = Fin (of_int \<lfloor>a\<rfloor>)"
| "np_floor x = x"

fun np_ceil :: "npfloat \<Rightarrow> npfloat" where
  "np_ceil (Fin a) = Fin (of_int \<lceil>a\<rceil>)"
| "np_ceil x = x"

text \<open>
  \<open>.astype(int)\<close>: a finite value in the range of a 64-bit integer is truncated towards
  zero. For \<open>nan\<close>, an infinity or a value out of range the conversion is the one of the
  processor; on x86-64 the result is the least 64-bit integer (numpy warns and goes on).
\<close>

definition int64_min :: int where
  "int64_min = - (2 ^ 63)"

fun astype_int :: "npfloat \<Rightarrow> int" where
  "astype_int (Fin a) =
     (if - (2 ^ 63) \<le> a \<and> a < 2 ^ 63
      then (if 0 \<le> a then \<lfloor>a\<rfloor> else \<lceil>a\<rceil>)
      else int64_min)"
| "astype_int x = int64_min"

subsection \<open>Vectors of three components\<close>

type_synonym vec3 = "real \<times> real \<times> real"
type_synonym fvec3 = "npfloat \<times> npfloat \<times> npfloat"
type_synonym ivec3 = "int \<times> int \<times> int"

text \<open>A triangle is one row of \<open>stl_mesh.vectors\<close>: three vertices.\<close>

type_synonym triangle = "vec3 \<times> vec3 \<times> vec3"

fun map3 :: "('a \<Rightarrow> 'b) \<Rightarrow> 'a \<times> 'a \<times> 'a \<Rightarrow> 'b \<times> 'b \<times> 'b" where
  "map3 f (x, y, z) = (f x, f y, f z)"

fun zip3 :: "('a \<Rightarrow> 'b \<Rightarrow> 'c) \<Rightarrow> 'a \<times> 'a \<times> 'a \<Rightarrow> 'b \<times> 'b \<times> 'b \<Rightarrow> 'c \<times> 'c \<times> 'c" where
  "zip3 f (x, y, z) (x', y', z') = (f x x', f y y', f z z')"

fun axis0 :: "'a \<times> 'a \<times> 'a \<Rightarrow> 'a" where
  "axis0 (x, y, z) = x"

fun axis1 :: "'a \<times> 'a \<times> 'a \<Rightarrow> 'a" where
  "axis1 (x, y, z) = y"

fun axis2 :: "'a \<times> 'a \<times> 'a \<Rightarrow> 'a" where
  "axis2 (x, y, z) = z"

text \<open>\<open>triangle.min(axis=0)\<close> and the same over all points: the component-wise extremes.\<close>

fun rows :: "triangle \<Rightarrow> vec3 list" where
  "rows (a, b, c) = [a, b, c]"

fun min_axis0 :: "vec3 list \<Rightarrow> np_error + vec3" where
  "min_axis0 [] = Inl ValueError"
| "min_axis0 (p # ps) = Inr (fold (zip3 min) ps p)"

fun max_axis0 :: "vec3 list \<Rightarrow> np_error + vec3" where
  "max_axis0 [] = Inl ValueError"
| "max_axis0 (p # ps) = Inr (fold (zip3 max) ps p)"

fun tri_min_of :: "triangle \<Rightarrow> vec3" where
  "tri_min_of (a, b, c) = fold (zip3 min) [b, c] a"

fun tri_max_of :: "triangle \<Rightarrow> vec3" where
  "tri_max_of (a, b, c) = fold (zip3 max) [b, c] a"

text \<open>\<open>stl_mesh.vectors.reshape(-1, 3)\<close>: the vertices of all triangles, in order.\<close>

definition all_points_of :: "triangle list \<Rightarrow> vec3 list" where
  "all_points_of vectors = concat (map rows vectors)"

subsection \<open>The grid\<close>

type_synonym voxel_grid = "bool list list list"

text \<open>\<open>np.zeros((resolution, resolution, resolution), dtype=bool)\<close>: a negative dimension
  raises \<open>ValueError\<close>.\<close>

definition np_zeros :: "int \<Rightarrow> np_error + voxel_grid" where
  "np_zeros resolution =
     (if resolution < 0 then Inl ValueError
      else Inr (replicate (nat resolution)
                 (replicate (nat resolution) (replicate (nat resolution) False))))"

text \<open>An index into an axis of length \<open>n\<close>: numpy counts a negative index from the end and
  raises \<open>IndexError\<close> outside \<open>[-n, n)\<close>.\<close>

definition np_index :: "nat \<Rightarrow> int \<Rightarrow> np_error + nat" where
  "np_index n i =
     (if 0 \<le> i \<and> i < int n then Inr (nat i)
      else if - int n \<le> i \<and> i < 0 then Inr (nat (i + int n))
      else Inl IndexError)"

text \<open>\<open>voxel_grid[i, j, k] = True\<close>.\<close>

fun grid_set :: "voxel_grid \<Rightarrow> ivec3 \<Rightarrow> np_error + voxel_grid" where
  "grid_set g (i, j, k) =
     (case np_index (length g) i of Inl e \<Rightarrow> Inl e | Inr i' \<Rightarrow>
      case np_index (length (g ! i')) j of Inl e \<Rightarrow> Inl e | Inr j' \<Rightarrow>
      case np_index (length (g ! i' ! j')) k of Inl e \<Rightarrow> Inl e | Inr k' \<Rightarrow>
        Inr (g[i' := (g ! i')[j' := (g ! i' ! j')[k' := True]]]))"

subsection \<open>Loops\<close>

text \<open>A \<open>for\<close> loop over a sequence, with the state threaded through the body; an
  exception raised in the body ends the loop.\<close>

fun for_each :: "'a list \<Rightarrow> ('a \<Rightarrow> 's \<Rightarrow> np_error + 's) \<Rightarrow> 's \<Rightarrow> np_error + 's" where
  "for_each [] body s = Inr s"
| "for_each (x # xs) body s =
     (case body x s of Inl e \<Rightarrow> Inl e | Inr s' \<Rightarrow> for_each xs body s')"

text \<open>\<open>range(a, b)\<close>: the integers from \<open>a\<close> up to \<open>b - 1\<close>.\<close>

definition py_range :: "int \<Rightarrow> int \<Rightarrow> int list" where
  "py_range a b = [a..b - 1]"

subsection \<open>\<open>point_near_triangle\<close>\<close>

text \<open>\<open>np.linalg.norm(triangle - point, axis=1)\<close>: for each vertex, the square root of the
  sum of the squares of the differences.\<close>

fun norm3 :: "fvec3 \<Rightarrow> npfloat" where
  "norm3 (x, y, z) = fsqrt (fadd (fadd (fmul x x) (fmul y y)) (fmul z z))"

fun point_near_triangle :: "fvec3 \<Rightarrow> triangle \<Rightarrow> npfloat \<Rightarrow> bool" where
  "point_near_triangle point (a, b, c) threshold =
     (let distances = map3 (\<lambda>v. norm3 (zip3 fsub (map3 Fin v) point)) (a, b, c)
      in fless (fmin (fmin (axis0 distances) (axis1 distances)) (axis2 distances))
               (fmul threshold (Fin 2)))"

subsection \<open>\<open>stl_to_voxel\<close>\<close>

text \<open>Lines 41--46: the range of voxel indices of a triangle, in each axis.\<close>

definition voxel_min_of :: "vec3 \<Rightarrow> fvec3 \<Rightarrow> triangle \<Rightarrow> ivec3" where
  "voxel_min_of min_coords voxel_size triangle =
     (let tri_min = tri_min_of triangle;
          voxel_min = map3 astype_int (map3 np_floor
            (zip3 fdiv (map3 Fin (zip3 (-) tri_min min_coords)) voxel_size))
      in map3 (\<lambda>v. max v 0) voxel_min)"

definition voxel_max_of :: "vec3 \<Rightarrow> fvec3 \<Rightarrow> int \<Rightarrow> triangle \<Rightarrow> ivec3" where
  "voxel_max_of min_coords voxel_size resolution triangle =
     (let tri_max = tri_max_of triangle;
          voxel_max = map3 astype_int (map3 np_ceil
            (zip3 fdiv (map3 Fin (zip3 (-) tri_max min_coords)) voxel_size))
      in map3 (\<lambda>v. min v (resolution - 1)) voxel_max)"

text \<open>Line 53: the centre of voxel \<open>(i, j, k)\<close> in world coordinates.\<close>

definition voxel_center_of :: "vec3 \<Rightarrow> fvec3 \<Rightarrow> ivec3 \<Rightarrow> fvec3" where
  "voxel_center_of min_coords voxel_size ijk =
     zip3 fadd
       (zip3 fadd (map3 Fin min_coords) (zip3 fmul (map3 (\<lambda>n. Fin (of_int n)) ijk) voxel_size))
       (map3 (\<lambda>s. fdiv s (Fin 2)) voxel_size)"

text \<open>\<open>voxel_size.max()\<close>.\<close>

fun fmax3 :: "fvec3 \<Rightarrow> npfloat" where
  "fmax3 (x, y, z) = fmax (fmax x y) z"

text \<open>Lines 53--58: the body of the innermost loop.\<close>

definition mark_voxel :: "vec3 \<Rightarrow> fvec3 \<Rightarrow> triangle \<Rightarrow> ivec3 \<Rightarrow> voxel_grid \<Rightarrow> np_error + voxel_grid" where
  "mark_voxel min_coords voxel_size triangle ijk voxel_grid =
     (let voxel_center = voxel_center_of min_coords voxel_size ijk
      in if point_near_triangle voxel_center triangle (fmax3 voxel_size)
         then grid_set voxel_grid ijk
         else Inr voxel_grid)"

text \<open>Lines 36--58: the body of the loop over the triangles.\<close>

definition rasterize_triangle ::
  "vec3 \<Rightarrow> fvec3 \<Rightarrow> int \<Rightarrow> triangle \<Rightarrow> voxel_grid \<Rightarrow> np_error + voxel_grid" where
  "rasterize_triangle min_coords voxel_size resolution triangle voxel_grid =
     (let voxel_min = voxel_min_of min_coords voxel_size triangle;
          voxel_max = voxel_max_of min_coords voxel_size resolution triangle
      in for_each (py_range (axis0 voxel_min) (axis0 voxel_max + 1)) (\<lambda>i.
           for_each (py_range (axis1 voxel_min) (axis1 voxel_max + 1)) (\<lambda>j.
             for_each (py_range (axis2 voxel_min) (axis2 voxel_max + 1)) (\<lambda>k.
               mark_voxel min_coords voxel_size triangle (i, j, k))))
         voxel_grid)"

text \<open>Line 29: \<open>voxel_size = dims / resolution\<close>.\<close>

definition voxel_size_of :: "vec3 \<Rightarrow> vec3 \<Rightarrow> int \<Rightarrow> fvec3" where
  "voxel_size_of min_coords max_coords resolution =
     (let dims = zip3 (-) max_coords min_coords
      in map3 (\<lambda>d. fdiv (Fin d) (Fin (of_int resolution))) dims)"

definition stl_to_voxel ::
  "triangle list \<Rightarrow> int \<Rightarrow> np_error + (voxel_grid \<times> (vec3 \<times> vec3))" where
  "stl_to_voxel vectors resolution =
     (let all_points = all_points_of vectors in
      case min_axis0 all_points of Inl e \<Rightarrow> Inl e | Inr min_coords \<Rightarrow>
      case max_axis0 all_points of Inl e \<Rightarrow> Inl e | Inr max_coords \<Rightarrow>
      let voxel_size = voxel_size_of min_coords max_coords resolution in
      case np_zeros resolution of Inl e \<Rightarrow> Inl e | Inr voxel_grid \<Rightarrow>
      case for_each vectors (rasterize_triangle min_coords voxel_size resolution) voxel_grid of
        Inl e \<Rightarrow> Inl e
      | Inr voxel_grid' \<Rightarrow> Inr (voxel_grid', (min_coords, max_coords)))"

section \<open>Vocabulary of the properties\<close>

text \<open>A grid of shape \<open>n \<times> n \<times> n\<close>.\<close>

definition grid_shape :: "nat \<Rightarrow> voxel_grid \<Rightarrow> bool" where
  "grid_shape n g \<longleftrightarrow>
     length g = n \<and> list_all (\<lambda>plane. length plane = n \<and> list_all (\<lambda>row. length row = n) plane) g"

text \<open>The value of cell \<open>(i, j, k)\<close>, for indices that are not negative.\<close>

fun cell_at :: "voxel_grid \<Rightarrow> ivec3 \<Rightarrow> bool" where
  "cell_at g (i, j, k) = g ! nat i ! nat j ! nat k"

text \<open>The indices of a grid of shape \<open>resolution\<^sup>3\<close>: each within \<open>[0, resolution - 1]\<close>.\<close>

fun in_grid :: "int \<Rightarrow> ivec3 \<Rightarrow> bool" where
  "in_grid resolution (i, j, k) \<longleftrightarrow>
     0 \<le> i \<and> i \<le> resolution - 1 \<and> 0 \<le> j \<and> j \<le> resolution - 1 \<and> 0 \<le> k \<and> k \<le> resolution - 1"

text \<open>The index lies in the inclusive range between two corner indices, on every axis.\<close>

fun in_voxel_range :: "ivec3 \<Rightarrow> ivec3 \<Rightarrow> ivec3 \<Rightarrow> bool" where
  "in_voxel_range (i0, j0, k0) (i1, j1, k1) (i, j, k) \<longleftrightarrow>
     i0 \<le> i \<and> i \<le> i1 \<and> j0 \<le> j \<and> j \<le> j1 \<and> k0 \<le> k \<and> k \<le> k1"

text \<open>A triangle claims a cell: the cell lies in the clamped index range of the triangle, and
  the test of line 57 holds for the centre of the cell.\<close>

definition claimed_by ::
  "vec3 \<Rightarrow> fvec3 \<Rightarrow> int \<Rightarrow> triangle \<Rightarrow> ivec3 \<Rightarrow> bool" where
  "claimed_by min_coords voxel_size resolution triangle ijk \<longleftrightarrow>
     in_voxel_range (voxel_min_of min_coords voxel_size triangle)
       (voxel_max_of min_coords voxel_size resolution triangle) ijk \<and>
     point_near_triangle (voxel_center_of min_coords voxel_size ijk) triangle (fmax3 voxel_size)"

text \<open>A step on grids marks the cells of a given set: on a grid of shape \<open>n\<^sup>3\<close> it returns
  a grid of the same shape, in which a cell is true exactly if it was true before or is in
  the set.\<close>

definition marks :: "nat \<Rightarrow> (voxel_grid \<Rightarrow> np_error + voxel_grid) \<Rightarrow> (ivec3 \<Rightarrow> bool) \<Rightarrow> bool" where
  "marks n step claimed \<longleftrightarrow>
     (\<forall>g. grid_shape n g \<longrightarrow>
        (\<exists>g'. step g = Inr g' \<and> grid_shape n g' \<and>
           (\<forall>c. in_grid (int n) c \<longrightarrow> (cell_at g' c \<longleftrightarrow> cell_at g c \<or> claimed c))))"

text \<open>The Euclidean distance between two points, as the specification words it.\<close>

definition euclidean_distance :: "vec3 \<Rightarrow> vec3 \<Rightarrow> real" where
  "euclidean_distance p v =
     sqrt ((axis0 v - axis0 p)\<^sup>2 + (axis1 v - axis1 p)\<^sup>2 + (axis2 v - axis2 p)\<^sup>2)"

text \<open>The centre of cell \<open>(i, j, k)\<close> for finite voxel sizes:
  \<open>mesh_min + (i, j, k) * voxel_size + voxel_size / 2\<close>.\<close>

definition cell_center :: "vec3 \<Rightarrow> vec3 \<Rightarrow> ivec3 \<Rightarrow> vec3" where
  "cell_center mn vs ijk =
     (axis0 mn + of_int (axis0 ijk) * axis0 vs + axis0 vs / 2,
      axis1 mn + of_int (axis1 ijk) * axis1 vs + axis1 vs / 2,
      axis2 mn + of_int (axis2 ijk) * axis2 vs + axis2 vs / 2)"

text \<open>The cells that the three nested loops of lines 49--51 visit, in the order of the
  loops.\<close>

definition enumerated_voxels :: "ivec3 \<Rightarrow> ivec3 \<Rightarrow> ivec3 list" where
  "enumerated_voxels voxel_min voxel_max =
     concat (map (\<lambda>i.
       concat (map (\<lambda>j.
         map (\<lambda>k. (i, j, k)) (py_range (axis2 voxel_min) (axis2 voxel_max + 1)))
         (py_range (axis1 voxel_min) (axis1 voxel_max + 1))))
       (py_range (axis0 voxel_min) (axis0 voxel_max + 1)))"

section \<open>Properties of the loops and of the grid\<close>

lemma grid_shape_iff_nth:
  "grid_shape n g \<longleftrightarrow>
     length g = n \<and> (\<forall>i<n. length (g ! i) = n \<and> (\<forall>j<n. length (g ! i ! j) = n))"
  by (auto simp: grid_shape_def list_all_length)

lemma set_py_range: "set (py_range a (b + 1)) = {a..b}"
  by (simp add: py_range_def)

lemma voxel_min_of_nonneg:
  "voxel_min_of mn vs tri = (i0, j0, k0) \<Longrightarrow> 0 \<le> i0 \<and> 0 \<le> j0 \<and> 0 \<le> k0"
  by (cases vs; cases mn; cases "tri_min_of tri") (auto simp: voxel_min_of_def Let_def)

lemma voxel_max_of_le:
  "voxel_max_of mn vs res tri = (i1, j1, k1) \<Longrightarrow> i1 \<le> res - 1 \<and> j1 \<le> res - 1 \<and> k1 \<le> res - 1"
  by (cases vs; cases mn; cases "tri_max_of tri") (auto simp: voxel_max_of_def Let_def)

lemma in_voxel_range_in_grid:
  "in_voxel_range (voxel_min_of mn vs tri) (voxel_max_of mn vs res tri) ijk \<Longrightarrow> in_grid res ijk"
  apply (cases "voxel_min_of mn vs tri"; cases "voxel_max_of mn vs res tri"; cases ijk)
  apply (auto dest!: voxel_min_of_nonneg voxel_max_of_le)
  done

lemma grid_shape_nth:
  "grid_shape n g \<Longrightarrow> i < n \<Longrightarrow> length (g ! i) = n"
  "grid_shape n g \<Longrightarrow> i < n \<Longrightarrow> j < n \<Longrightarrow> length (g ! i ! j) = n"
  by (auto simp: grid_shape_iff_nth)

lemma np_index_in_range: "0 \<le> i \<Longrightarrow> i < int n \<Longrightarrow> np_index n i = Inr (nat i)"
  by (simp add: np_index_def)

lemma grid_set_in_grid:
  assumes "grid_shape n g" "in_grid (int n) (i, j, k)"
  shows "grid_set g (i, j, k) =
           Inr (g[nat i := (g ! nat i)[nat j := (g ! nat i ! nat j)[nat k := True]]])"
proof -
  have i: "nat i < n" and j: "nat j < n" and k: "nat k < n"
    using assms(2) by auto
  have "np_index (length g) i = Inr (nat i)"
    using assms i by (simp add: np_index_def grid_shape_iff_nth)
  moreover have "np_index (length (g ! nat i)) j = Inr (nat j)"
    using assms i j by (simp add: np_index_def grid_shape_nth)
  moreover have "np_index (length (g ! nat i ! nat j)) k = Inr (nat k)"
    using assms i j k by (simp add: np_index_def grid_shape_nth)
  ultimately show ?thesis by simp
qed

lemma grid_shape_update:
  assumes "grid_shape n g" "i < n" "j < n"
  shows "grid_shape n (g[i := (g ! i)[j := (g ! i ! j)[k := v]]])"
  using assms by (auto simp: grid_shape_iff_nth nth_list_update)

lemma cell_at_update:
  assumes "grid_shape n g" "in_grid (int n) (i, j, k)" "in_grid (int n) (a, b, c)"
  shows "cell_at (g[nat i := (g ! nat i)[nat j := (g ! nat i ! nat j)[nat k := True]]]) (a, b, c)
         \<longleftrightarrow> cell_at g (a, b, c) \<or> (a, b, c) = (i, j, k)"
proof -
  have "nat i < n" "nat j < n" "nat k < n" "nat a < n" "nat b < n" "nat c < n"
    "nat a = nat i \<longleftrightarrow> a = i" "nat b = nat j \<longleftrightarrow> b = j" "nat c = nat k \<longleftrightarrow> c = k"
    using assms(2,3) by auto
  then show ?thesis
    using assms(1) by (auto simp: nth_list_update grid_shape_iff_nth)
qed

lemma marksI:
  assumes "\<And>g. grid_shape n g \<Longrightarrow>
     \<exists>g'. step g = Inr g' \<and> grid_shape n g' \<and>
       (\<forall>c. in_grid (int n) c \<longrightarrow> (cell_at g' c \<longleftrightarrow> cell_at g c \<or> claimed c))"
  shows "marks n step claimed"
  using assms by (simp add: marks_def)

lemma marksD:
  assumes "marks n step claimed" "grid_shape n g"
  obtains g' where "step g = Inr g'" "grid_shape n g'"
    "\<And>c. in_grid (int n) c \<Longrightarrow> cell_at g' c \<longleftrightarrow> cell_at g c \<or> claimed c"
  using assms unfolding marks_def by blast

lemma marks_for_each:
  assumes "\<And>x. x \<in> set xs \<Longrightarrow> marks n (body x) (claimed x)"
  shows "marks n (for_each xs body) (\<lambda>c. \<exists>x \<in> set xs. claimed x c)"
  using assms
proof (induction xs)
  case Nil
  show ?case by (rule marksI) simp
next
  case (Cons x xs)
  have hd: "marks n (body x) (claimed x)"
    using Cons.prems by simp
  have tl: "marks n (for_each xs body) (\<lambda>c. \<exists>x \<in> set xs. claimed x c)"
    using Cons by simp
  show ?case
  proof (rule marksI)
    fix g assume "grid_shape n g"
    with hd [unfolded marks_def] obtain g1 where g1: "body x g = Inr g1" "grid_shape n g1"
      "\<And>c. in_grid (int n) c \<Longrightarrow> cell_at g1 c \<longleftrightarrow> cell_at g c \<or> claimed x c"
      by blast
    from tl [unfolded marks_def] g1(2) obtain g2 where g2: "for_each xs body g1 = Inr g2" "grid_shape n g2"
      "\<And>c. in_grid (int n) c \<Longrightarrow> cell_at g2 c \<longleftrightarrow> cell_at g1 c \<or> (\<exists>x \<in> set xs. claimed x c)"
      by blast
    have "for_each (x # xs) body g = Inr g2"
      using g1(1) g2(1) by simp
    moreover have "\<forall>c. in_grid (int n) c \<longrightarrow>
        (cell_at g2 c \<longleftrightarrow> cell_at g c \<or> (\<exists>y \<in> set (x # xs). claimed y c))"
      using g1(3) g2(3) by auto
    ultimately show "\<exists>g'. for_each (x # xs) body g = Inr g' \<and> grid_shape n g' \<and>
        (\<forall>c. in_grid (int n) c \<longrightarrow>
           (cell_at g' c \<longleftrightarrow> cell_at g c \<or> (\<exists>y \<in> set (x # xs). claimed y c)))"
      using g2(2) by blast
  qed
qed

lemma marks_cong:
  assumes "marks n step claimed" "\<And>c. in_grid (int n) c \<Longrightarrow> claimed c \<longleftrightarrow> claimed' c"
  shows "marks n step claimed'"
proof (rule marksI)
  fix g assume "grid_shape n g"
  with assms(1) [unfolded marks_def] obtain g' where g': "step g = Inr g'" "grid_shape n g'"
    "\<And>c. in_grid (int n) c \<Longrightarrow> cell_at g' c \<longleftrightarrow> cell_at g c \<or> claimed c"
    by blast
  have "\<forall>c. in_grid (int n) c \<longrightarrow> (cell_at g' c \<longleftrightarrow> cell_at g c \<or> claimed' c)"
    using g'(3) assms(2) by simp
  then show "\<exists>g'. step g = Inr g' \<and> grid_shape n g' \<and>
      (\<forall>c. in_grid (int n) c \<longrightarrow> (cell_at g' c \<longleftrightarrow> cell_at g c \<or> claimed' c))"
    using g'(1,2) by blast
qed

lemma marks_mark_voxel:
  assumes "in_grid (int n) ijk"
  shows "marks n (mark_voxel mn vs tri ijk)
           (\<lambda>c. c = ijk \<and> point_near_triangle (voxel_center_of mn vs ijk) tri (fmax3 vs))"
proof (rule marksI)
  fix g assume g: "grid_shape n g"
  obtain i j k where ijk: "ijk = (i, j, k)" by (cases ijk)
  let ?g' = "g[nat i := (g ! nat i)[nat j := (g ! nat i ! nat j)[nat k := True]]]"
  have set: "grid_set g ijk = Inr ?g'"
    using g assms unfolding ijk by (rule grid_set_in_grid)
  have shape: "grid_shape n ?g'"
    using g assms unfolding ijk by (intro grid_shape_update) auto
  have cells: "\<And>c. in_grid (int n) c \<Longrightarrow> cell_at ?g' c \<longleftrightarrow> cell_at g c \<or> c = ijk"
  proof -
    fix c :: ivec3 assume c: "in_grid (int n) c"
    obtain a b d where abd: "c = (a, b, d)" by (cases c)
    show "cell_at ?g' c \<longleftrightarrow> cell_at g c \<or> c = ijk"
      using cell_at_update [OF g assms [unfolded ijk] c [unfolded abd]]
      unfolding abd ijk .
  qed
  show "\<exists>g'. mark_voxel mn vs tri ijk g = Inr g' \<and> grid_shape n g' \<and>
     (\<forall>c. in_grid (int n) c \<longrightarrow>
        (cell_at g' c \<longleftrightarrow> cell_at g c \<or>
           (c = ijk \<and> point_near_triangle (voxel_center_of mn vs ijk) tri (fmax3 vs))))"
  proof (cases "point_near_triangle (voxel_center_of mn vs ijk) tri (fmax3 vs)")
    case True
    then have "mark_voxel mn vs tri ijk g = Inr ?g'"
      using set by (simp add: mark_voxel_def)
    then show ?thesis using shape cells True by blast
  next
    case False
    then have "mark_voxel mn vs tri ijk g = Inr g"
      by (simp add: mark_voxel_def)
    then show ?thesis using g False by blast
  qed
qed

lemma marks_rasterize_triangle:
  assumes "res \<le> int n"
  shows "marks n (rasterize_triangle mn vs res tri)
           (\<lambda>c. in_voxel_range (voxel_min_of mn vs tri) (voxel_max_of mn vs res tri) c \<and>
                point_near_triangle (voxel_center_of mn vs c) tri (fmax3 vs))"
proof -
  obtain i0 j0 k0 where vmin: "voxel_min_of mn vs tri = (i0, j0, k0)"
    by (cases "voxel_min_of mn vs tri")
  obtain i1 j1 k1 where vmax: "voxel_max_of mn vs res tri = (i1, j1, k1)"
    by (cases "voxel_max_of mn vs res tri")
  have lo: "0 \<le> i0" "0 \<le> j0" "0 \<le> k0"
    using voxel_min_of_nonneg [OF vmin] by simp_all
  have hi: "i1 \<le> int n - 1" "j1 \<le> int n - 1" "k1 \<le> int n - 1"
    using voxel_max_of_le [OF vmax] assms by simp_all
  let ?hit = "\<lambda>c. point_near_triangle (voxel_center_of mn vs c) tri (fmax3 vs)"
  have inner: "marks n (mark_voxel mn vs tri (i, j, k)) (\<lambda>c. c = (i, j, k) \<and> ?hit c)"
    if "i \<in> {i0..i1}" "j \<in> {j0..j1}" "k \<in> {k0..k1}" for i j k
  proof -
    have "in_grid (int n) (i, j, k)"
      using that lo hi by simp
    then have "marks n (mark_voxel mn vs tri (i, j, k))
        (\<lambda>c. c = (i, j, k) \<and> ?hit (i, j, k))"
      by (rule marks_mark_voxel)
    then show ?thesis
      by (rule marks_cong) auto
  qed
  have loop_k: "marks n (for_each (py_range k0 (k1 + 1)) (\<lambda>k. mark_voxel mn vs tri (i, j, k)))
        (\<lambda>c. \<exists>k \<in> set (py_range k0 (k1 + 1)). c = (i, j, k) \<and> ?hit c)"
    if "i \<in> {i0..i1}" "j \<in> {j0..j1}" for i j
    by (rule marks_for_each) (use that inner in \<open>simp add: set_py_range\<close>)
  have loop_j: "marks n (for_each (py_range j0 (j1 + 1)) (\<lambda>j.
          for_each (py_range k0 (k1 + 1)) (\<lambda>k. mark_voxel mn vs tri (i, j, k))))
        (\<lambda>c. \<exists>j \<in> set (py_range j0 (j1 + 1)).
               \<exists>k \<in> set (py_range k0 (k1 + 1)). c = (i, j, k) \<and> ?hit c)"
    if "i \<in> {i0..i1}" for i
    by (rule marks_for_each) (use that loop_k in \<open>simp add: set_py_range\<close>)
  have loop_i: "marks n (for_each (py_range i0 (i1 + 1)) (\<lambda>i.
          for_each (py_range j0 (j1 + 1)) (\<lambda>j.
            for_each (py_range k0 (k1 + 1)) (\<lambda>k. mark_voxel mn vs tri (i, j, k)))))
        (\<lambda>c. \<exists>i \<in> set (py_range i0 (i1 + 1)). \<exists>j \<in> set (py_range j0 (j1 + 1)).
               \<exists>k \<in> set (py_range k0 (k1 + 1)). c = (i, j, k) \<and> ?hit c)"
    by (rule marks_for_each) (use loop_j in \<open>simp add: set_py_range\<close>)
  have unfold: "rasterize_triangle mn vs res tri =
      for_each (py_range i0 (i1 + 1)) (\<lambda>i.
        for_each (py_range j0 (j1 + 1)) (\<lambda>j.
          for_each (py_range k0 (k1 + 1)) (\<lambda>k. mark_voxel mn vs tri (i, j, k))))"
    by (rule ext) (simp add: rasterize_triangle_def vmin vmax)
  have "marks n (rasterize_triangle mn vs res tri)
        (\<lambda>c. \<exists>i \<in> set (py_range i0 (i1 + 1)). \<exists>j \<in> set (py_range j0 (j1 + 1)).
               \<exists>k \<in> set (py_range k0 (k1 + 1)). c = (i, j, k) \<and> ?hit c)"
    unfolding unfold by (rule loop_i)
  then show ?thesis
    unfolding vmin vmax
    by (rule marks_cong) (auto simp: set_py_range)
qed

lemma marks_all_triangles:
  assumes "res \<le> int n"
  shows "marks n (for_each tris (rasterize_triangle mn vs res))
           (\<lambda>c. \<exists>tri \<in> set tris.
                in_voxel_range (voxel_min_of mn vs tri) (voxel_max_of mn vs res tri) c \<and>
                point_near_triangle (voxel_center_of mn vs c) tri (fmax3 vs))"
  by (rule marks_for_each) (rule marks_rasterize_triangle [OF assms])

lemma fold_zip3_min_axis:
  "axis0 (fold (zip3 min) ps p) = fold min (map axis0 ps) (axis0 p)"
  "axis1 (fold (zip3 min) ps p) = fold min (map axis1 ps) (axis1 p)"
  "axis2 (fold (zip3 min) ps p) = fold min (map axis2 ps) (axis2 p)"
  by (induction ps arbitrary: p; force)+

lemma fold_zip3_max_axis:
  "axis0 (fold (zip3 max) ps p) = fold max (map axis0 ps) (axis0 p)"
  "axis1 (fold (zip3 max) ps p) = fold max (map axis1 ps) (axis1 p)"
  "axis2 (fold (zip3 max) ps p) = fold max (map axis2 ps) (axis2 p)"
  by (induction ps arbitrary: p; force)+

lemma vec3_eqI: "axis0 p = axis0 q \<Longrightarrow> axis1 p = axis1 q \<Longrightarrow> axis2 p = axis2 q \<Longrightarrow> p = q"
  by (cases p; cases q) simp

lemma min_axis0_Min:
  assumes "pts \<noteq> []"
  shows "min_axis0 pts =
           Inr (Min (axis0 ` set pts), Min (axis1 ` set pts), Min (axis2 ` set pts))"
proof -
  obtain p ps where pts: "pts = p # ps"
    using assms by (cases pts) auto
  have "fold (zip3 min) ps p =
          (Min (axis0 ` set pts), Min (axis1 ` set pts), Min (axis2 ` set pts))"
    by (rule vec3_eqI)
       (simp_all add: fold_zip3_min_axis pts Min.set_eq_fold [symmetric])
  then show ?thesis by (simp add: pts)
qed

lemma max_axis0_Max:
  assumes "pts \<noteq> []"
  shows "max_axis0 pts =
           Inr (Max (axis0 ` set pts), Max (axis1 ` set pts), Max (axis2 ` set pts))"
proof -
  obtain p ps where pts: "pts = p # ps"
    using assms by (cases pts) auto
  have "fold (zip3 max) ps p =
          (Max (axis0 ` set pts), Max (axis1 ` set pts), Max (axis2 ` set pts))"
    by (rule vec3_eqI)
       (simp_all add: fold_zip3_max_axis pts Max.set_eq_fold [symmetric])
  then show ?thesis by (simp add: pts)
qed

lemma all_points_of_Nil_iff: "all_points_of vectors = [] \<longleftrightarrow> vectors = []"
  by (cases vectors) (auto simp: all_points_of_def split: prod.splits)

lemma set_all_points_of: "set (all_points_of vectors) = (\<Union>(a, b, c) \<in> set vectors. {a, b, c})"
  by (auto simp: all_points_of_def)

lemma np_zeros_shape:
  assumes "0 \<le> res"
  shows "\<exists>g. np_zeros res = Inr g \<and> grid_shape (nat res) g \<and>
           (\<forall>c. in_grid res c \<longrightarrow> \<not> cell_at g c)"
  using assms by (auto simp: np_zeros_def grid_shape_def list_all_length)

lemma grid_eqI:
  assumes "grid_shape n g" "grid_shape n g'"
    and "\<And>c. in_grid (int n) c \<Longrightarrow> cell_at g c \<longleftrightarrow> cell_at g' c"
  shows "g = g'"
proof (rule nth_equalityI)
  show "length g = length g'"
    using assms(1,2) by (simp add: grid_shape_iff_nth)
next
  fix i assume "i < length g"
  then have i: "i < n" using assms(1) by (simp add: grid_shape_iff_nth)
  show "g ! i = g' ! i"
  proof (rule nth_equalityI)
    show "length (g ! i) = length (g' ! i)"
      using assms(1,2) i by (simp add: grid_shape_nth)
  next
    fix j assume "j < length (g ! i)"
    then have j: "j < n" using assms(1) i by (simp add: grid_shape_nth)
    show "g ! i ! j = g' ! i ! j"
    proof (rule nth_equalityI)
      show "length (g ! i ! j) = length (g' ! i ! j)"
        using assms(1,2) i j by (simp add: grid_shape_nth)
    next
      fix k assume "k < length (g ! i ! j)"
      then have k: "k < n" using assms(1) i j by (simp add: grid_shape_nth)
      have "in_grid (int n) (int i, int j, int k)"
        using i j k by simp
      from assms(3) [OF this] show "g ! i ! j ! k = g' ! i ! j ! k"
        by simp
    qed
  qed
qed

lemma stl_to_voxel_cells:
  assumes "vectors \<noteq> []" "0 \<le> res"
  defines "pts \<equiv> all_points_of vectors"
  defines "mn \<equiv> (Min (axis0 ` set pts), Min (axis1 ` set pts), Min (axis2 ` set pts))"
  defines "mx \<equiv> (Max (axis0 ` set pts), Max (axis1 ` set pts), Max (axis2 ` set pts))"
  shows "\<exists>g. stl_to_voxel vectors res = Inr (g, (mn, mx)) \<and> grid_shape (nat res) g \<and>
           (\<forall>c. in_grid res c \<longrightarrow>
              (cell_at g c \<longleftrightarrow>
                 (\<exists>tri \<in> set vectors. claimed_by mn (voxel_size_of mn mx res) res tri c)))"
proof -
  have pts: "pts \<noteq> []"
    using assms(1) by (simp add: pts_def all_points_of_Nil_iff)
  have mn: "min_axis0 (all_points_of vectors) = Inr mn"
    using min_axis0_Min [OF pts] by (simp add: mn_def pts_def)
  have mx: "max_axis0 (all_points_of vectors) = Inr mx"
    using max_axis0_Max [OF pts] by (simp add: mx_def pts_def)
  obtain g0 where g0: "np_zeros res = Inr g0" "grid_shape (nat res) g0"
    "\<And>c. in_grid res c \<Longrightarrow> \<not> cell_at g0 c"
    using np_zeros_shape [OF assms(2)] by blast
  let ?vs = "voxel_size_of mn mx res"
  have "marks (nat res) (for_each vectors (rasterize_triangle mn ?vs res))
          (\<lambda>c. \<exists>tri \<in> set vectors. claimed_by mn ?vs res tri c)"
    unfolding claimed_by_def by (rule marks_all_triangles) (use assms(2) in simp)
  with g0(2) obtain g where g: "for_each vectors (rasterize_triangle mn ?vs res) g0 = Inr g"
    "grid_shape (nat res) g"
    "\<And>c. in_grid (int (nat res)) c \<Longrightarrow>
       cell_at g c \<longleftrightarrow> cell_at g0 c \<or> (\<exists>tri \<in> set vectors. claimed_by mn ?vs res tri c)"
    unfolding marks_def by blast
  have "stl_to_voxel vectors res = Inr (g, (mn, mx))"
    by (simp add: stl_to_voxel_def mn mx g0(1) g(1))
  moreover have "\<forall>c. in_grid res c \<longrightarrow>
      (cell_at g c \<longleftrightarrow> (\<exists>tri \<in> set vectors. claimed_by mn ?vs res tri c))"
    using g(3) g0(3) assms(2) by simp
  ultimately show ?thesis using g(2) by blast
qed

section \<open>Finite values, bounds and shapes\<close>

lemma Min_le_Max_image:
  fixes f :: "'a \<Rightarrow> real"
  assumes "finite A" "A \<noteq> {}"
  shows "Min (f ` A) \<le> Max (f ` A)"
proof -
  from assms(2) obtain x where x: "x \<in> A" by blast
  have "Min (f ` A) \<le> f x"
    using assms(1) x by simp
  also have "f x \<le> Max (f ` A)"
    using assms(1) x by simp
  finally show ?thesis .
qed

lemma length_concat_uniform:
  "\<forall>x \<in> set xs. length x = n \<Longrightarrow> length (concat xs) = length xs * n"
  by (induction xs) simp_all

lemma grid_shape_cell_count:
  assumes "grid_shape n g"
  shows "length (concat (concat g)) = n ^ 3"
proof -
  have planes: "\<forall>plane \<in> set g. length plane = n"
    and rows: "\<forall>plane \<in> set g. \<forall>row \<in> set plane. length row = n"
    and len: "length g = n"
    using assms by (auto simp: grid_shape_def list_all_iff)
  have "length (concat g) = n * n"
    using length_concat_uniform [OF planes] len by simp
  moreover have "\<forall>row \<in> set (concat g). length row = n"
    using rows by auto
  ultimately have "length (concat (concat g)) = n * n * n"
    using length_concat_uniform [of "concat g" n] by simp
  then show ?thesis by (simp add: power3_eq_cube)
qed

lemma np_zeros_all_false:
  assumes "np_zeros res = Inr g0"
  shows "\<forall>cell \<in> set (concat (concat g0)). \<not> cell"
  using assms by (auto simp: np_zeros_def split: if_splits)

lemma rasterize_all_shape:
  assumes "grid_shape (nat res) g0"
  shows "\<exists>g. for_each tris (rasterize_triangle mn vs res) g0 = Inr g \<and> grid_shape (nat res) g"
proof -
  have "marks (nat res) (for_each tris (rasterize_triangle mn vs res))
          (\<lambda>c. \<exists>tri \<in> set tris.
                in_voxel_range (voxel_min_of mn vs tri) (voxel_max_of mn vs res tri) c \<and>
                point_near_triangle (voxel_center_of mn vs c) tri (fmax3 vs))"
    by (rule marks_all_triangles) simp
  with assms show ?thesis
    unfolding marks_def by blast
qed

lemma stl_to_voxel_negative:
  assumes "resolution < 0"
  shows "stl_to_voxel vectors resolution = Inl ValueError"
proof (cases "vectors = []")
  case True
  then show ?thesis by (simp add: stl_to_voxel_def all_points_of_def)
next
  case False
  then have pts: "all_points_of vectors \<noteq> []"
    by (simp add: all_points_of_Nil_iff)
  show ?thesis
    using assms
    by (simp add: stl_to_voxel_def min_axis0_Min [OF pts] max_axis0_Max [OF pts] np_zeros_def)
qed

lemma norm3_finite:
  "norm3 (zip3 fsub (map3 Fin v) (map3 Fin p)) = Fin (euclidean_distance p v)"
proof -
  obtain v0 v1 v2 where v: "v = (v0, v1, v2)" by (cases v)
  obtain p0 p1 p2 where p: "p = (p0, p1, p2)" by (cases p)
  have "\<not> (v0 - p0) * (v0 - p0) + (v1 - p1) * (v1 - p1) + (v2 - p2) * (v2 - p2) < 0"
    by (simp add: not_less add_nonneg_nonneg)
  then show ?thesis
    by (simp add: v p fsub_def euclidean_distance_def power2_eq_square)
qed

lemma fmin_finite: "fmin (Fin x) (Fin y) = Fin (min x y)"
  by (simp add: fmin_def min_def)

lemma fmax_finite: "fmax (Fin x) (Fin y) = Fin (max x y)"
  by (simp add: fmax_def max_def)

lemma Min_three: "Min {x, y, z :: real} = min (min x y) z"
  by (simp add: min.commute min.left_commute)

lemma Max_three: "Max {x, y, z :: real} = max (max x y) z"
  by (simp add: max.commute max.left_commute)

lemma point_near_triangle_finite:
  "point_near_triangle (map3 Fin p) (a, b, c) (Fin t) \<longleftrightarrow>
     Min {euclidean_distance p a, euclidean_distance p b, euclidean_distance p c} < 2 * t"
  by (simp add: norm3_finite fmin_finite Min_three mult.commute)

lemma voxel_center_of_finite:
  "voxel_center_of mn (map3 Fin vs) ijk = map3 Fin (cell_center mn vs ijk)"
  by (cases mn; cases vs; cases ijk) (simp add: voxel_center_of_def cell_center_def)

lemma fmax3_finite: "fmax3 (map3 Fin vs) = Fin (Max {axis0 vs, axis1 vs, axis2 vs})"
  by (cases vs) (simp add: fmax_finite Max_three)

lemma voxel_size_of_finite:
  assumes "resolution \<noteq> 0"
  shows "voxel_size_of mn mx resolution =
           map3 Fin (map3 (\<lambda>d. d / of_int resolution) (zip3 (-) mx mn))"
  using assms by (cases mn; cases mx) (simp add: voxel_size_of_def)

lemma mark_voxel_finite:
  "mark_voxel mn (map3 Fin vs) (a, b, c) ijk g =
     (if Min {euclidean_distance (cell_center mn vs ijk) a,
              euclidean_distance (cell_center mn vs ijk) b,
              euclidean_distance (cell_center mn vs ijk) c}
           < 2 * Max {axis0 vs, axis1 vs, axis2 vs}
      then grid_set g ijk else Inr g)"
  unfolding mark_voxel_def Let_def voxel_center_of_finite fmax3_finite
    point_near_triangle_finite ..

text \<open>The definitions that evaluate the conversion on a concrete mesh.\<close>

lemmas voxel_eval =
  stl_to_voxel_def all_points_of_def voxel_size_of_def np_zeros_def rasterize_triangle_def
  voxel_min_of_def voxel_max_of_def py_range_def int64_min_def signed_inf_def

section \<open>The loops as one enumeration; monotonic writes\<close>

lemma for_each_append:
  "for_each (xs @ ys) body s =
     (case for_each xs body s of Inl e \<Rightarrow> Inl e | Inr s' \<Rightarrow> for_each ys body s')"
  by (induction xs arbitrary: s) (auto split: sum.splits)

lemma for_each_map: "for_each (map f xs) body = for_each xs (\<lambda>x. body (f x))"
proof
  fix s show "for_each (map f xs) body s = for_each xs (\<lambda>x. body (f x)) s"
    by (induction xs arbitrary: s) (auto split: sum.splits)
qed

lemma for_each_concat_map:
  "for_each (concat (map f xs)) body = for_each xs (\<lambda>x. for_each (f x) body)"
proof
  fix s show "for_each (concat (map f xs)) body s = for_each xs (\<lambda>x. for_each (f x) body) s"
    by (induction xs arbitrary: s) (auto simp: for_each_append split: sum.splits)
qed

lemma rasterize_triangle_enumerated:
  "rasterize_triangle mn vs res tri g =
     for_each (enumerated_voxels (voxel_min_of mn vs tri) (voxel_max_of mn vs res tri))
       (mark_voxel mn vs tri) g"
  by (simp add: rasterize_triangle_def enumerated_voxels_def Let_def for_each_concat_map
      for_each_map)

lemma set_enumerated_voxels:
  "set (enumerated_voxels vmin vmax) = {c. in_voxel_range vmin vmax c}"
  by (cases vmin; cases vmax) (auto simp: enumerated_voxels_def set_py_range image_iff)

lemma enumerated_voxels_empty:
  assumes "axis0 vmax < axis0 vmin \<or> axis1 vmax < axis1 vmin \<or> axis2 vmax < axis2 vmin"
  shows "enumerated_voxels vmin vmax = []"
proof -
  have "set (enumerated_voxels vmin vmax) = {}"
    using assms unfolding set_enumerated_voxels by (cases vmin; cases vmax) auto
  then show ?thesis by simp
qed

lemma rasterize_triangle_no_error:
  assumes "grid_shape (nat res) g"
  shows "\<exists>g'. rasterize_triangle mn vs res tri g = Inr g' \<and> grid_shape (nat res) g'"
proof -
  have "marks (nat res) (rasterize_triangle mn vs res tri)
          (\<lambda>c. in_voxel_range (voxel_min_of mn vs tri) (voxel_max_of mn vs res tri) c \<and>
                point_near_triangle (voxel_center_of mn vs c) tri (fmax3 vs))"
    by (rule marks_rasterize_triangle) simp
  with assms show ?thesis
    unfolding marks_def by blast
qed

lemma in_grid_nat:
  assumes "in_grid res c"
  shows "in_grid (int (nat res)) c"
  using assms by (cases c) auto

lemma np_index_less: "np_index n i = Inr i' \<Longrightarrow> i' < n"
  by (auto simp: np_index_def split: if_splits)

lemma grid_set_mono:
  assumes "grid_set g ijk = Inr g'" "g ! a ! b ! c"
  shows "g' ! a ! b ! c"
proof -
  obtain i j k where ijk: "ijk = (i, j, k)" by (cases ijk)
  from assms(1) obtain i' j' k' where
    i': "np_index (length g) i = Inr i'" and
    j': "np_index (length (g ! i')) j = Inr j'" and
    k': "np_index (length (g ! i' ! j')) k = Inr k'" and
    g': "g' = g[i' := (g ! i')[j' := (g ! i' ! j')[k' := True]]]"
    unfolding ijk by (auto split: sum.splits)
  have lt: "i' < length g" "j' < length (g ! i')" "k' < length (g ! i' ! j')"
    using i' j' k' by (auto dest: np_index_less)
  show ?thesis
  proof (cases "a = i'")
    case False
    then show ?thesis using assms(2) unfolding g' by simp
  next
    case a: True
    show ?thesis
    proof (cases "b = j'")
      case False
      then show ?thesis using assms(2) lt a unfolding g' by simp
    next
      case b: True
      show ?thesis
        using assms(2) lt a b unfolding g' by (cases "c = k'") simp_all
    qed
  qed
qed

lemma for_each_preserves:
  assumes step: "\<And>x s s'. x \<in> set xs \<Longrightarrow> body x s = Inr s' \<Longrightarrow> P s \<Longrightarrow> P s'"
  shows "for_each xs body s = Inr s' \<Longrightarrow> P s \<Longrightarrow> P s'"
  using step
proof (induction xs arbitrary: s)
  case Nil
  then show ?case by simp
next
  case (Cons x xs)
  from Cons.prems(1) obtain s1 where s1: "body x s = Inr s1" "for_each xs body s1 = Inr s'"
    by (auto split: sum.splits)
  have "P s1"
    using Cons.prems(3) [of x s s1] s1(1) Cons.prems(2) by simp
  moreover have "\<And>y t t'. y \<in> set xs \<Longrightarrow> body y t = Inr t' \<Longrightarrow> P t \<Longrightarrow> P t'"
    using Cons.prems(3) by (meson list.set_intros(2))
  ultimately show ?case
    using Cons.IH [of s1] s1(2) by blast
qed

lemma mark_voxel_mono:
  assumes "mark_voxel mn vs tri ijk g = Inr g'" "g ! a ! b ! c"
  shows "g' ! a ! b ! c"
  using assms by (auto simp: mark_voxel_def Let_def split: if_splits intro: grid_set_mono)

lemma rasterize_triangle_mono:
  assumes "rasterize_triangle mn vs res tri g = Inr g'" "g ! a ! b ! c"
  shows "g' ! a ! b ! c"
proof -
  have "\<And>x s s'. mark_voxel mn vs tri x s = Inr s' \<Longrightarrow> s ! a ! b ! c \<Longrightarrow> s' ! a ! b ! c"
    by (rule mark_voxel_mono)
  then show ?thesis
    using for_each_preserves [where P = "\<lambda>g. g ! a ! b ! c" and body = "mark_voxel mn vs tri"]
      assms(1) [unfolded rasterize_triangle_enumerated] assms(2)
    by blast
qed

lemma all_triangles_mono:
  assumes "for_each tris (rasterize_triangle mn vs res) g = Inr g'" "g ! a ! b ! c"
  shows "g' ! a ! b ! c"
proof -
  have "\<And>x s s'. rasterize_triangle mn vs res x s = Inr s' \<Longrightarrow> s ! a ! b ! c \<Longrightarrow> s' ! a ! b ! c"
    by (rule rasterize_triangle_mono)
  then show ?thesis
    using for_each_preserves [where P = "\<lambda>g. g ! a ! b ! c"
        and body = "rasterize_triangle mn vs res"] assms
    by blast
qed

section \<open>The claims\<close>

text \<open>
  C1. The occupancy predicate. For a finite point \<open>p\<close> and a finite threshold \<open>t\<close>,
  \<open>point_near_triangle\<close> holds exactly if the least Euclidean distance from \<open>p\<close> to the
  three vertices is strictly less than \<open>2 t\<close>. In the conversion the point is the centre of
  the cell and the threshold is the greatest component of the voxel size, which is
  \<open>(max - min) / resolution\<close> for a resolution other than zero.
\<close>

theorem occupancy_predicate:
  "(point_near_triangle (map3 Fin p) (a, b, c) (Fin t) \<longleftrightarrow>
      Min {euclidean_distance p a, euclidean_distance p b, euclidean_distance p c} < 2 * t) \<and>
   mark_voxel mn (map3 Fin vs) (a, b, c) ijk g =
     (if Min {euclidean_distance (cell_center mn vs ijk) a,
              euclidean_distance (cell_center mn vs ijk) b,
              euclidean_distance (cell_center mn vs ijk) c}
           < 2 * Max {axis0 vs, axis1 vs, axis2 vs}
      then grid_set g ijk else Inr g) \<and>
   (resolution \<noteq> 0 \<longrightarrow>
      voxel_size_of mn mx resolution =
        map3 Fin (map3 (\<lambda>d. d / of_int resolution) (zip3 (-) mx mn)))"
  using point_near_triangle_finite [of p a b c t] mark_voxel_finite [of mn vs a b c ijk g]
    voxel_size_of_finite [of resolution mn mx]
  by blast

theorem occupancy_predicate_witness:
  "(2 :: int) \<noteq> 0 \<and>
   voxel_size_of (0, 0, 0) (1, 1, 1) 2 =
     map3 Fin (map3 (\<lambda>d. d / of_int 2) (zip3 (-) (1, 1, 1) (0, 0, 0))) \<and>
   point_near_triangle (map3 Fin (0, 0, 0)) ((0, 0, 0), (1, 0, 0), (0, 1, 1)) (Fin 1) =
     (Min {euclidean_distance (0, 0, 0) (0, 0, 0), euclidean_distance (0, 0, 0) (1, 0, 0),
           euclidean_distance (0, 0, 0) (0, 1, 1)} < 2 * 1)"
  using occupancy_predicate [of "(0, 0, 0)" "(0, 0, 0)" "(1, 0, 0)" "(0, 1, 1)" 1
      "(0, 0, 0)" "(1, 1, 1)" "(0, 0, 0)" "[]" 2 "(1, 1, 1)"]
  by simp

text \<open>
  C2. The clamp of the index range. As the claim states it, both corners are clamped to
  \<open>[0, resolution - 1]\<close>; the code clamps each corner on one side only. For a triangle in
  the face \<open>x = 1\<close> of the bounds \<open>(0, 0, 0)\<close>, \<open>(1, 1, 1)\<close> at resolution 1, the lower
  index on the first axis is 1, above \<open>resolution - 1 = 0\<close>.
\<close>

theorem index_min_counterexample:
  "\<not> axis0 (voxel_min_of (0, 0, 0) (voxel_size_of (0, 0, 0) (1, 1, 1) 1)
            ((1, 0, 0), (1, 1, 0), (1, 0, 1))) \<le> 1 - 1"
  by (simp add: voxel_eval)

text \<open>
  C2, amended. The lower corner is at least 0 and the upper corner at most
  \<open>resolution - 1\<close> on every axis, so every index that the loops enumerate lies in
  \<open>[0, resolution - 1]\<close>.
\<close>

theorem clamp_one_sided:
  "0 \<le> axis0 (voxel_min_of mn vs tri) \<and>
   0 \<le> axis1 (voxel_min_of mn vs tri) \<and>
   0 \<le> axis2 (voxel_min_of mn vs tri) \<and>
   axis0 (voxel_max_of mn vs res tri) \<le> res - 1 \<and>
   axis1 (voxel_max_of mn vs res tri) \<le> res - 1 \<and>
   axis2 (voxel_max_of mn vs res tri) \<le> res - 1 \<and>
   (\<forall>i \<in> set (py_range (axis0 (voxel_min_of mn vs tri)) (axis0 (voxel_max_of mn vs res tri) + 1)).
      0 \<le> i \<and> i \<le> res - 1) \<and>
   (\<forall>j \<in> set (py_range (axis1 (voxel_min_of mn vs tri)) (axis1 (voxel_max_of mn vs res tri) + 1)).
      0 \<le> j \<and> j \<le> res - 1) \<and>
   (\<forall>k \<in> set (py_range (axis2 (voxel_min_of mn vs tri)) (axis2 (voxel_max_of mn vs res tri) + 1)).
      0 \<le> k \<and> k \<le> res - 1)"
proof -
  obtain i0 j0 k0 where vmin: "voxel_min_of mn vs tri = (i0, j0, k0)"
    by (cases "voxel_min_of mn vs tri")
  obtain i1 j1 k1 where vmax: "voxel_max_of mn vs res tri = (i1, j1, k1)"
    by (cases "voxel_max_of mn vs res tri")
  show ?thesis
    using voxel_min_of_nonneg [OF vmin] voxel_max_of_le [OF vmax]
    by (auto simp: vmin vmax set_py_range)
qed

theorem clamp_one_sided_witness:
  "(0 :: int) \<in> set (py_range
      (axis0 (voxel_min_of (0, 0, 0) (Fin 1, Fin 1, Fin 1) ((0, 0, 0), (1, 0, 0), (0, 1, 1))))
      (axis0 (voxel_max_of (0, 0, 0) (Fin 1, Fin 1, Fin 1) 1 ((0, 0, 0), (1, 0, 0), (0, 1, 1))) + 1)) \<and>
   (0 :: int) \<le> 0 \<and> (0 :: int) \<le> 1 - 1"
proof -
  have "(0 :: int) \<in> set (py_range
      (axis0 (voxel_min_of (0, 0, 0) (Fin 1, Fin 1, Fin 1) ((0, 0, 0), (1, 0, 0), (0, 1, 1))))
      (axis0 (voxel_max_of (0, 0, 0) (Fin 1, Fin 1, Fin 1) 1 ((0, 0, 0), (1, 0, 0), (0, 1, 1))) + 1))"
    by (simp add: voxel_eval)
  with clamp_one_sided [of "(0, 0, 0)" "(Fin 1, Fin 1, Fin 1)" "((0, 0, 0), (1, 0, 0), (0, 1, 1))" 1]
  show ?thesis by blast
qed

text \<open>
  C3. A resolution below 1. As the claim states it, the conversion fails for every
  resolution below 1; at resolution 0 the code returns the empty grid and the bounds.
\<close>

theorem resolution_zero_counterexample:
  "(0 :: int) < 1 \<and>
   stl_to_voxel [((0, 0, 0), (1, 0, 0), (0, 1, 1))] 0 = Inr ([], ((0, 0, 0), (1, 1, 1)))"
  by (simp add: voxel_eval)

text \<open>
  C3, amended. For every mesh and every negative resolution the conversion fails with
  \<open>ValueError\<close> and returns no grid: the allocation itself refuses the negative dimension.
  At resolution 0 the conversion of a mesh that is not empty does not fail: it returns the
  empty grid and the bounds.
\<close>

theorem resolution_below_one:
  "(resolution < 0 \<longrightarrow>
      stl_to_voxel vectors resolution = Inl ValueError \<and>
      np_zeros resolution = Inl ValueError) \<and>
   (vectors \<noteq> [] \<longrightarrow> (\<exists>bounds. stl_to_voxel vectors 0 = Inr ([], bounds)))"
proof (intro conjI impI)
  assume "resolution < 0"
  then show "stl_to_voxel vectors resolution = Inl ValueError"
    by (rule stl_to_voxel_negative)
next
  assume "resolution < 0"
  then show "np_zeros resolution = Inl ValueError"
    by (simp add: np_zeros_def)
next
  assume ne: "vectors \<noteq> []"
  from stl_to_voxel_cells [OF ne, of 0]
  obtain g bounds where "stl_to_voxel vectors 0 = Inr (g, bounds)" "grid_shape (nat 0) g"
    by auto
  moreover from this(2) have "g = []"
    by (simp add: grid_shape_def)
  ultimately show "\<exists>bounds. stl_to_voxel vectors 0 = Inr ([], bounds)"
    by blast
qed

theorem resolution_below_one_witness:
  "(- 1 :: int) < 0 \<and> [((0, 0, 0), (1, 0, 0), (0, 1, 1))] \<noteq> ([] :: triangle list) \<and>
   stl_to_voxel [((0, 0, 0), (1, 0, 0), (0, 1, 1))] (- 1) = Inl ValueError \<and>
   np_zeros (- 1) = Inl ValueError \<and>
   (\<exists>bounds. stl_to_voxel [((0, 0, 0), (1, 0, 0), (0, 1, 1))] 0 = Inr ([], bounds))"
  using resolution_below_one [of "- 1" "[((0, 0, 0), (1, 0, 0), (0, 1, 1))]"]
  by simp

text \<open>
  C4. A flat mesh. As the claim states it, the conversion of a mesh with zero extent on an
  axis fails; for the triangle \<open>(0,0,0)\<close>, \<open>(1,0,0)\<close>, \<open>(0,1,0)\<close> at resolution 1 the code
  returns a grid of one cell, not marked, and the bounds.
\<close>

theorem flat_mesh_counterexample:
  "stl_to_voxel [((0, 0, 0), (1, 0, 0), (0, 1, 0))] 1 = Inr ([[[False]]], ((0, 0, 0), (1, 1, 0)))"
  by (simp add: voxel_eval)

text \<open>
  C4, amended. For a mesh that is not empty, with zero extent on some axis, and a
  resolution of at least 1, the conversion does not fail: the voxel size on that axis is
  zero and the conversion goes on, returning a grid of shape \<open>resolution\<^sup>3\<close> and the
  bounds.
\<close>

theorem flat_mesh_not_rejected:
  assumes "vectors \<noteq> []" "1 \<le> resolution"
    and "min_axis0 (all_points_of vectors) = Inr mn"
    and "max_axis0 (all_points_of vectors) = Inr mx"
    and "axis0 mn = axis0 mx \<or> axis1 mn = axis1 mx \<or> axis2 mn = axis2 mx"
  shows "(\<exists>g. stl_to_voxel vectors resolution = Inr (g, (mn, mx)) \<and>
              grid_shape (nat resolution) g) \<and>
         (axis0 (voxel_size_of mn mx resolution) = Fin 0 \<or>
          axis1 (voxel_size_of mn mx resolution) = Fin 0 \<or>
          axis2 (voxel_size_of mn mx resolution) = Fin 0)"
proof
  have res: "0 \<le> resolution" using assms(2) by simp
  have pts: "all_points_of vectors \<noteq> []"
    using assms(1) by (simp add: all_points_of_Nil_iff)
  from stl_to_voxel_cells [OF assms(1) res]
  obtain g where "stl_to_voxel vectors resolution =
      Inr (g, ((Min (axis0 ` set (all_points_of vectors)), Min (axis1 ` set (all_points_of vectors)),
                Min (axis2 ` set (all_points_of vectors))),
               (Max (axis0 ` set (all_points_of vectors)), Max (axis1 ` set (all_points_of vectors)),
                Max (axis2 ` set (all_points_of vectors)))))"
    "grid_shape (nat resolution) g"
    by blast
  moreover have "mn = (Min (axis0 ` set (all_points_of vectors)),
      Min (axis1 ` set (all_points_of vectors)), Min (axis2 ` set (all_points_of vectors)))"
    using assms(3) min_axis0_Min [OF pts] by simp
  moreover have "mx = (Max (axis0 ` set (all_points_of vectors)),
      Max (axis1 ` set (all_points_of vectors)), Max (axis2 ` set (all_points_of vectors)))"
    using assms(4) max_axis0_Max [OF pts] by simp
  ultimately show "\<exists>g. stl_to_voxel vectors resolution = Inr (g, (mn, mx)) \<and>
      grid_shape (nat resolution) g"
    by blast
next
  have "resolution \<noteq> 0" using assms(2) by simp
  then show "axis0 (voxel_size_of mn mx resolution) = Fin 0 \<or>
      axis1 (voxel_size_of mn mx resolution) = Fin 0 \<or>
      axis2 (voxel_size_of mn mx resolution) = Fin 0"
    using assms(5) by (cases mn; cases mx) (auto simp: voxel_size_of_def)
qed

theorem flat_mesh_not_rejected_witness:
  "[((0, 0, 0), (1, 0, 0), (0, 1, 0))] \<noteq> ([] :: triangle list) \<and> (1 :: int) \<le> 1 \<and>
   min_axis0 (all_points_of [((0, 0, 0), (1, 0, 0), (0, 1, 0))]) = Inr (0, 0, 0) \<and>
   max_axis0 (all_points_of [((0, 0, 0), (1, 0, 0), (0, 1, 0))]) = Inr (1, 1, 0) \<and>
   axis2 (0 :: real, 0 :: real, 0 :: real) = axis2 (1 :: real, 1 :: real, 0 :: real) \<and>
   (\<exists>g. stl_to_voxel [((0, 0, 0), (1, 0, 0), (0, 1, 0))] 1 = Inr (g, ((0, 0, 0), (1, 1, 0))) \<and>
        grid_shape (nat 1) g)"
proof -
  have ne: "[((0, 0, 0), (1, 0, 0), (0, 1, 0))] \<noteq> ([] :: triangle list)" by simp
  have res: "(1 :: int) \<le> 1" by simp
  have mn: "min_axis0 (all_points_of [((0, 0, 0), (1, 0, 0), (0, 1, 0))]) = Inr (0, 0, 0)"
    by (simp add: all_points_of_def)
  have mx: "max_axis0 (all_points_of [((0, 0, 0), (1, 0, 0), (0, 1, 0))]) = Inr (1, 1, 0)"
    by (simp add: all_points_of_def)
  have flat: "axis0 (0 :: real, 0 :: real, 0 :: real) = axis0 (1 :: real, 1 :: real, 0 :: real) \<or>
      axis1 (0 :: real, 0 :: real, 0 :: real) = axis1 (1 :: real, 1 :: real, 0 :: real) \<or>
      axis2 (0 :: real, 0 :: real, 0 :: real) = axis2 (1 :: real, 1 :: real, 0 :: real)"
    by simp
  from flat_mesh_not_rejected [OF ne res mn mx flat]
  show ?thesis using ne mn mx by simp
qed

text \<open>
  C5. A mesh with zero triangles: the conversion fails instead of returning bounds or a
  grid. The error is the \<open>ValueError\<close> that numpy raises for the minimum of an array
  without elements (line 24), whatever the resolution.
\<close>

theorem empty_mesh_fails:
  "stl_to_voxel [] resolution = Inl ValueError"
  by (simp add: stl_to_voxel_def all_points_of_def)

text \<open>
  C6. The bounds of a mesh that is not empty: \<open>min\<close> is the component-wise minimum and
  \<open>max\<close> the component-wise maximum over the vertices of all triangles; every vertex lies
  within them on every axis, \<open>min \<le> max\<close> on every axis, and these are the bounds that the
  conversion returns.
\<close>

theorem bounds_are_extremes:
  assumes "vectors \<noteq> []"
  shows "\<exists>mn mx.
     min_axis0 (all_points_of vectors) = Inr mn \<and>
     max_axis0 (all_points_of vectors) = Inr mx \<and>
     set (all_points_of vectors) = (\<Union>(a, b, c) \<in> set vectors. {a, b, c}) \<and>
     mn = (Min (axis0 ` set (all_points_of vectors)),
           Min (axis1 ` set (all_points_of vectors)),
           Min (axis2 ` set (all_points_of vectors))) \<and>
     mx = (Max (axis0 ` set (all_points_of vectors)),
           Max (axis1 ` set (all_points_of vectors)),
           Max (axis2 ` set (all_points_of vectors))) \<and>
     (\<forall>p \<in> set (all_points_of vectors).
        axis0 mn \<le> axis0 p \<and> axis0 p \<le> axis0 mx \<and>
        axis1 mn \<le> axis1 p \<and> axis1 p \<le> axis1 mx \<and>
        axis2 mn \<le> axis2 p \<and> axis2 p \<le> axis2 mx) \<and>
     axis0 mn \<le> axis0 mx \<and> axis1 mn \<le> axis1 mx \<and> axis2 mn \<le> axis2 mx \<and>
     (0 \<le> resolution \<longrightarrow> (\<exists>g. stl_to_voxel vectors resolution = Inr (g, (mn, mx))))"
proof -
  let ?pts = "all_points_of vectors"
  let ?mn = "(Min (axis0 ` set ?pts), Min (axis1 ` set ?pts), Min (axis2 ` set ?pts))"
  let ?mx = "(Max (axis0 ` set ?pts), Max (axis1 ` set ?pts), Max (axis2 ` set ?pts))"
  have pts: "?pts \<noteq> []"
    using assms by (simp add: all_points_of_Nil_iff)
  then have ne: "set ?pts \<noteq> {}" by simp
  have c1: "min_axis0 ?pts = Inr ?mn" by (rule min_axis0_Min [OF pts])
  have c2: "max_axis0 ?pts = Inr ?mx" by (rule max_axis0_Max [OF pts])
  have c3: "set ?pts = (\<Union>(a, b, c) \<in> set vectors. {a, b, c})" by (rule set_all_points_of)
  have c6: "\<forall>p \<in> set ?pts.
        axis0 ?mn \<le> axis0 p \<and> axis0 p \<le> axis0 ?mx \<and>
        axis1 ?mn \<le> axis1 p \<and> axis1 p \<le> axis1 ?mx \<and>
        axis2 ?mn \<le> axis2 p \<and> axis2 p \<le> axis2 ?mx"
    by simp
  have c7: "axis0 ?mn \<le> axis0 ?mx \<and> axis1 ?mn \<le> axis1 ?mx \<and> axis2 ?mn \<le> axis2 ?mx"
    using ne by (simp add: Min_le_Max_image)
  have c8: "0 \<le> resolution \<longrightarrow> (\<exists>g. stl_to_voxel vectors resolution = Inr (g, (?mn, ?mx)))"
  proof
    assume "0 \<le> resolution"
    from stl_to_voxel_cells [OF assms this]
    show "\<exists>g. stl_to_voxel vectors resolution = Inr (g, (?mn, ?mx))" by blast
  qed
  show ?thesis
    apply (rule exI [of _ ?mn], rule exI [of _ ?mx])
    apply (intro conjI c1 c2 c3 refl c6 c8)
    using c7 apply simp_all
    done
qed

theorem bounds_are_extremes_witness:
  "[((0, 0, 0), (1, 0, 0), (0, 1, 1))] \<noteq> ([] :: triangle list) \<and>
   (\<exists>mn mx.
     min_axis0 (all_points_of [((0, 0, 0), (1, 0, 0), (0, 1, 1))]) = Inr mn \<and>
     max_axis0 (all_points_of [((0, 0, 0), (1, 0, 0), (0, 1, 1))]) = Inr mx \<and>
     axis0 mn \<le> axis0 mx \<and> axis1 mn \<le> axis1 mx \<and> axis2 mn \<le> axis2 mx \<and>
     (\<exists>g. stl_to_voxel [((0, 0, 0), (1, 0, 0), (0, 1, 1))] 1 = Inr (g, (mn, mx))))"
proof -
  have ne: "[((0, 0, 0), (1, 0, 0), (0, 1, 1))] \<noteq> ([] :: triangle list)" by simp
  from bounds_are_extremes [OF ne, of 1]
  obtain mn mx where
    "min_axis0 (all_points_of [((0, 0, 0), (1, 0, 0), (0, 1, 1))]) = Inr mn"
    "max_axis0 (all_points_of [((0, 0, 0), (1, 0, 0), (0, 1, 1))]) = Inr mx"
    "axis0 mn \<le> axis0 mx" "axis1 mn \<le> axis1 mx" "axis2 mn \<le> axis2 mx"
    "(0 :: int) \<le> 1 \<longrightarrow> (\<exists>g. stl_to_voxel [((0, 0, 0), (1, 0, 0), (0, 1, 1))] 1 = Inr (g, (mn, mx)))"
    by (elim exE conjE)
  then show ?thesis using ne by auto
qed

text \<open>
  C9. The allocation. For a mesh that is not empty and a resolution of at least 1, the
  grid allocated has shape \<open>resolution\<^sup>3\<close>, that is \<open>resolution\<^sup>3\<close> cells, all false;
  the loop over the triangles starts from this grid, and the grid returned has the same
  shape.
\<close>

theorem grid_allocated_all_false:
  assumes "vectors \<noteq> []" "1 \<le> resolution"
  shows "\<exists>g0 mn mx.
     np_zeros resolution = Inr g0 \<and>
     grid_shape (nat resolution) g0 \<and>
     length (concat (concat g0)) = nat resolution ^ 3 \<and>
     (\<forall>cell \<in> set (concat (concat g0)). \<not> cell) \<and>
     min_axis0 (all_points_of vectors) = Inr mn \<and>
     max_axis0 (all_points_of vectors) = Inr mx \<and>
     (\<exists>g. for_each vectors
             (rasterize_triangle mn (voxel_size_of mn mx resolution) resolution) g0 = Inr g \<and>
           stl_to_voxel vectors resolution = Inr (g, (mn, mx)) \<and>
           grid_shape (nat resolution) g \<and>
           length (concat (concat g)) = nat resolution ^ 3)"
proof -
  let ?pts = "all_points_of vectors"
  have pts: "?pts \<noteq> []"
    using assms(1) by (simp add: all_points_of_Nil_iff)
  obtain mn where mn: "min_axis0 ?pts = Inr mn"
    using min_axis0_Min [OF pts] by blast
  obtain mx where mx: "max_axis0 ?pts = Inr mx"
    using max_axis0_Max [OF pts] by blast
  have res: "0 \<le> resolution" using assms(2) by simp
  obtain g0 where g0: "np_zeros resolution = Inr g0" "grid_shape (nat resolution) g0"
    using np_zeros_shape [OF res] by blast
  obtain g where g:
    "for_each vectors (rasterize_triangle mn (voxel_size_of mn mx resolution) resolution) g0 = Inr g"
    "grid_shape (nat resolution) g"
    using rasterize_all_shape [OF g0(2)] by blast
  have ret: "stl_to_voxel vectors resolution = Inr (g, (mn, mx))"
    by (simp add: stl_to_voxel_def mn mx g0(1) g(1))
  show ?thesis
    apply (rule exI [of _ g0], rule exI [of _ mn], rule exI [of _ mx])
    apply (intro conjI g0 mn mx grid_shape_cell_count [OF g0(2)] np_zeros_all_false [OF g0(1)])
    apply (rule exI [of _ g])
    apply (intro conjI g ret grid_shape_cell_count [OF g(2)])
    done
qed

theorem grid_allocated_all_false_witness:
  "[((0, 0, 0), (1, 0, 0), (0, 1, 1))] \<noteq> ([] :: triangle list) \<and> (1 :: int) \<le> 2 \<and>
   (\<exists>g0 mn mx.
     np_zeros 2 = Inr g0 \<and>
     grid_shape (nat 2) g0 \<and>
     length (concat (concat g0)) = nat 2 ^ 3 \<and>
     (\<forall>cell \<in> set (concat (concat g0)). \<not> cell) \<and>
     min_axis0 (all_points_of [((0, 0, 0), (1, 0, 0), (0, 1, 1))]) = Inr mn \<and>
     max_axis0 (all_points_of [((0, 0, 0), (1, 0, 0), (0, 1, 1))]) = Inr mx \<and>
     (\<exists>g. for_each [((0, 0, 0), (1, 0, 0), (0, 1, 1))]
             (rasterize_triangle mn (voxel_size_of mn mx 2) 2) g0 = Inr g \<and>
           stl_to_voxel [((0, 0, 0), (1, 0, 0), (0, 1, 1))] 2 = Inr (g, (mn, mx)) \<and>
           grid_shape (nat 2) g \<and>
           length (concat (concat g)) = nat 2 ^ 3))"
proof -
  have ne: "[((0, 0, 0), (1, 0, 0), (0, 1, 1))] \<noteq> ([] :: triangle list)" by simp
  have res: "(1 :: int) \<le> 2" by simp
  show ?thesis
    by (intro conjI ne res grid_allocated_all_false [OF ne res])
qed

text \<open>
  C7. Commutativity. The conversion of a permutation of the triangles returns the same
  result as the conversion of the original sequence: the same grid and the same bounds,
  or the same error.
\<close>

theorem permutation_invariant:
  assumes "mset vectors = mset vectors'"
  shows "stl_to_voxel vectors resolution = stl_to_voxel vectors' resolution"
proof (cases "resolution < 0")
  case True
  then show ?thesis by (simp add: stl_to_voxel_negative)
next
  case False
  then have res: "0 \<le> resolution" by simp
  have sets: "set vectors = set vectors'"
    using assms by (rule mset_eq_setD)
  show ?thesis
  proof (cases "vectors = []")
    case True
    then have "vectors' = []" using assms by simp
    with True show ?thesis by simp
  next
    case ne: False
    then have ne': "vectors' \<noteq> []" using sets by auto
    have pts: "set (all_points_of vectors) = set (all_points_of vectors')"
      by (simp add: set_all_points_of sets)
    let ?P = "set (all_points_of vectors)"
    let ?mn = "(Min (axis0 ` ?P), Min (axis1 ` ?P), Min (axis2 ` ?P))"
    let ?mx = "(Max (axis0 ` ?P), Max (axis1 ` ?P), Max (axis2 ` ?P))"
    let ?vs = "voxel_size_of ?mn ?mx resolution"
    from stl_to_voxel_cells [OF ne res]
    obtain g where g: "stl_to_voxel vectors resolution = Inr (g, (?mn, ?mx))"
      "grid_shape (nat resolution) g"
      "\<And>c. in_grid resolution c \<Longrightarrow>
         cell_at g c \<longleftrightarrow> (\<exists>tri \<in> set vectors. claimed_by ?mn ?vs resolution tri c)"
      by blast
    from stl_to_voxel_cells [OF ne' res, folded pts]
    obtain g' where g': "stl_to_voxel vectors' resolution = Inr (g', (?mn, ?mx))"
      "grid_shape (nat resolution) g'"
      "\<And>c. in_grid resolution c \<Longrightarrow>
         cell_at g' c \<longleftrightarrow> (\<exists>tri \<in> set vectors'. claimed_by ?mn ?vs resolution tri c)"
      by blast
    have "g = g'"
    proof (rule grid_eqI [OF g(2) g'(2)])
      fix c assume "in_grid (int (nat resolution)) c"
      then have "in_grid resolution c" using res by simp
      then show "cell_at g c \<longleftrightarrow> cell_at g' c"
        using g(3) g'(3) sets by simp
    qed
    then show ?thesis using g(1) g'(1) by simp
  qed
qed

theorem permutation_invariant_witness:
  "mset [((0, 0, 0), (1, 0, 0), (0, 1, 1)), ((1, 0, 0), (1, 1, 0), (1, 0, 1))] =
     mset [((1, 0, 0), (1, 1, 0), (1, 0, 1)), ((0, 0, 0), (1, 0, 0), (0, 1, 1)) :: triangle] \<and>
   stl_to_voxel [((0, 0, 0), (1, 0, 0), (0, 1, 1)), ((1, 0, 0), (1, 1, 0), (1, 0, 1))] 2 =
     stl_to_voxel [((1, 0, 0), (1, 1, 0), (1, 0, 1)), ((0, 0, 0), (1, 0, 0), (0, 1, 1))] 2"
proof -
  have perm: "mset [((0, 0, 0), (1, 0, 0), (0, 1, 1)), ((1, 0, 0), (1, 1, 0), (1, 0, 1))] =
     mset [((1, 0, 0), (1, 1, 0), (1, 0, 1)), ((0, 0, 0), (1, 0, 0), (0, 1, 1)) :: triangle]"
    by (simp add: add_mset_commute)
  show ?thesis
    by (intro conjI perm permutation_invariant [OF perm])
qed

text \<open>
  C8. Monotonic writes. A cell that is true stays true through a write, through the
  rasterization of one triangle and through the loop over all triangles. In the grid
  returned, a cell is true exactly if some triangle claimed it: the cell lies in the
  clamped index range of the triangle, and the occupancy predicate holds for the centre of
  the cell against the triangle.
\<close>

theorem monotonic_or:
  "(grid_set g ijk = Inr g1 \<and> g ! a ! b ! c \<longrightarrow> g1 ! a ! b ! c) \<and>
   (rasterize_triangle mn vs res tri g = Inr g2 \<and> g ! a ! b ! c \<longrightarrow> g2 ! a ! b ! c) \<and>
   (for_each tris (rasterize_triangle mn vs res) g = Inr g3 \<and> g ! a ! b ! c \<longrightarrow> g3 ! a ! b ! c) \<and>
   (vectors \<noteq> [] \<and> 0 \<le> resolution \<longrightarrow>
      (\<exists>final min_coords max_coords.
         stl_to_voxel vectors resolution = Inr (final, (min_coords, max_coords)) \<and>
         (\<forall>cell. in_grid resolution cell \<longrightarrow>
            (cell_at final cell \<longleftrightarrow>
               (\<exists>triangle \<in> set vectors.
                  claimed_by min_coords (voxel_size_of min_coords max_coords resolution)
                    resolution triangle cell)))))"
proof (intro conjI impI)
  assume "grid_set g ijk = Inr g1 \<and> g ! a ! b ! c"
  then show "g1 ! a ! b ! c" by (blast intro: grid_set_mono)
next
  assume "rasterize_triangle mn vs res tri g = Inr g2 \<and> g ! a ! b ! c"
  then show "g2 ! a ! b ! c" by (blast intro: rasterize_triangle_mono)
next
  assume "for_each tris (rasterize_triangle mn vs res) g = Inr g3 \<and> g ! a ! b ! c"
  then show "g3 ! a ! b ! c" by (blast intro: all_triangles_mono)
next
  assume "vectors \<noteq> [] \<and> 0 \<le> resolution"
  then have ne: "vectors \<noteq> []" and res: "0 \<le> resolution" by simp_all
  from stl_to_voxel_cells [OF ne res]
  show "\<exists>final min_coords max_coords.
         stl_to_voxel vectors resolution = Inr (final, (min_coords, max_coords)) \<and>
         (\<forall>cell. in_grid resolution cell \<longrightarrow>
            (cell_at final cell \<longleftrightarrow>
               (\<exists>triangle \<in> set vectors.
                  claimed_by min_coords (voxel_size_of min_coords max_coords resolution)
                    resolution triangle cell)))"
    by blast
qed

theorem monotonic_or_witness:
  "grid_set [[[True]]] (0, 0, 0) = Inr [[[True]]] \<and>
   [[[True]]] ! 0 ! 0 ! 0 \<and>
   rasterize_triangle (0, 0, 0) (Fin 1, Fin 1, Fin 1) 1
     ((1, 0, 0), (1, 1, 0), (1, 0, 1)) [[[True]]] = Inr [[[True]]] \<and>
   for_each [((1, 0, 0), (1, 1, 0), (1, 0, 1))]
     (rasterize_triangle (0, 0, 0) (Fin 1, Fin 1, Fin 1) 1) [[[True]]] = Inr [[[True]]] \<and>
   [((0, 0, 0), (1, 0, 0), (0, 1, 1))] \<noteq> ([] :: triangle list) \<and> (0 :: int) \<le> 1 \<and>
   in_grid 1 (0, 0, 0) \<and>
   (\<exists>final min_coords max_coords.
      stl_to_voxel [((0, 0, 0), (1, 0, 0), (0, 1, 1))] 1 = Inr (final, (min_coords, max_coords)) \<and>
      (cell_at final (0, 0, 0) \<longleftrightarrow>
         (\<exists>triangle \<in> set [((0, 0, 0), (1, 0, 0), (0, 1, 1))].
            claimed_by min_coords (voxel_size_of min_coords max_coords 1) 1 triangle (0, 0, 0))))"
proof -
  let ?vs = "(Fin 1, Fin 1, Fin 1) :: fvec3"
  let ?t1 = "((0, 0, 0), (1, 0, 0), (0, 1, 1)) :: triangle"
  let ?t2 = "((1, 0, 0), (1, 1, 0), (1, 0, 1)) :: triangle"
  let ?g = "[[[True]]] :: voxel_grid"
  have set: "grid_set ?g (0, 0, 0) = Inr ?g"
    by (simp add: np_index_def)
  have cell: "?g ! 0 ! 0 ! 0" by simp
  have one: "rasterize_triangle (0, 0, 0) ?vs 1 ?t2 ?g = Inr ?g"
    by (simp add: voxel_eval)
  have all: "for_each [?t2] (rasterize_triangle (0, 0, 0) ?vs 1) ?g = Inr ?g"
    by (simp add: one)
  have ne: "[?t1] \<noteq> []" by simp
  have res: "(0 :: int) \<le> 1" by simp
  have ing: "in_grid 1 (0, 0, 0)" by simp
  note m = monotonic_or [of ?g "(0, 0, 0)" ?g 0 0 0 "(0, 0, 0)" ?vs 1 ?t2 ?g "[?t2]" ?g "[?t1]" 1]
  from m ne res obtain final min_coords max_coords where
    r: "stl_to_voxel [?t1] 1 = Inr (final, (min_coords, max_coords))"
    and c: "\<forall>cell. in_grid 1 cell \<longrightarrow>
            (cell_at final cell \<longleftrightarrow>
               (\<exists>triangle \<in> set [?t1].
                  claimed_by min_coords (voxel_size_of min_coords max_coords 1) 1 triangle cell))"
    by blast
  from c ing have "cell_at final (0, 0, 0) \<longleftrightarrow>
         (\<exists>triangle \<in> set [?t1].
            claimed_by min_coords (voxel_size_of min_coords max_coords 1) 1 triangle (0, 0, 0))"
    by blast
  with r have ex: "\<exists>final min_coords max_coords.
      stl_to_voxel [?t1] 1 = Inr (final, (min_coords, max_coords)) \<and>
      (cell_at final (0, 0, 0) \<longleftrightarrow>
         (\<exists>triangle \<in> set [?t1].
            claimed_by min_coords (voxel_size_of min_coords max_coords 1) 1 triangle (0, 0, 0)))"
    by blast
  show ?thesis
    by (intro conjI set cell one all ne res ing ex)
qed

text \<open>
  C10. Writes in bounds. The rasterization of a triangle visits the cells of its clamped
  index range and no other. The lower corner is at least 0 and the upper corner at most
  \<open>resolution - 1\<close>, so every cell visited is a cell of the grid and a write to it raises
  no error; the rasterization as a whole raises no error. When the lower index exceeds
  the upper index on some axis, no cell is visited and the grid is returned as it was.
\<close>

theorem writes_in_bounds:
  "rasterize_triangle mn vs res tri g =
     for_each (enumerated_voxels (voxel_min_of mn vs tri) (voxel_max_of mn vs res tri))
       (mark_voxel mn vs tri) g \<and>
   0 \<le> axis0 (voxel_min_of mn vs tri) \<and>
   0 \<le> axis1 (voxel_min_of mn vs tri) \<and>
   0 \<le> axis2 (voxel_min_of mn vs tri) \<and>
   axis0 (voxel_max_of mn vs res tri) \<le> res - 1 \<and>
   axis1 (voxel_max_of mn vs res tri) \<le> res - 1 \<and>
   axis2 (voxel_max_of mn vs res tri) \<le> res - 1 \<and>
   (\<forall>ijk \<in> set (enumerated_voxels (voxel_min_of mn vs tri) (voxel_max_of mn vs res tri)).
      in_grid res ijk \<and>
      (\<forall>g1. grid_shape (nat res) g1 \<longrightarrow> (\<exists>g2. grid_set g1 ijk = Inr g2))) \<and>
   (grid_shape (nat res) g \<longrightarrow>
      (\<exists>g'. rasterize_triangle mn vs res tri g = Inr g' \<and> grid_shape (nat res) g')) \<and>
   (axis0 (voxel_max_of mn vs res tri) < axis0 (voxel_min_of mn vs tri) \<or>
    axis1 (voxel_max_of mn vs res tri) < axis1 (voxel_min_of mn vs tri) \<or>
    axis2 (voxel_max_of mn vs res tri) < axis2 (voxel_min_of mn vs tri) \<longrightarrow>
      enumerated_voxels (voxel_min_of mn vs tri) (voxel_max_of mn vs res tri) = [] \<and>
      rasterize_triangle mn vs res tri g = Inr g)"
proof -
  let ?vmin = "voxel_min_of mn vs tri" and ?vmax = "voxel_max_of mn vs res tri"
  obtain i0 j0 k0 where vmin: "?vmin = (i0, j0, k0)" by (cases ?vmin)
  obtain i1 j1 k1 where vmax: "?vmax = (i1, j1, k1)" by (cases ?vmax)
  have lo: "0 \<le> axis0 ?vmin \<and> 0 \<le> axis1 ?vmin \<and> 0 \<le> axis2 ?vmin"
    using voxel_min_of_nonneg [OF vmin] by (simp add: vmin)
  have hi: "axis0 ?vmax \<le> res - 1 \<and> axis1 ?vmax \<le> res - 1 \<and> axis2 ?vmax \<le> res - 1"
    using voxel_max_of_le [OF vmax] by (simp add: vmax)
  have cells: "\<forall>ijk \<in> set (enumerated_voxels ?vmin ?vmax).
      in_grid res ijk \<and> (\<forall>g1. grid_shape (nat res) g1 \<longrightarrow> (\<exists>g2. grid_set g1 ijk = Inr g2))"
  proof
    fix ijk assume "ijk \<in> set (enumerated_voxels ?vmin ?vmax)"
    then have "in_voxel_range ?vmin ?vmax ijk"
      by (simp add: set_enumerated_voxels)
    then have ing: "in_grid res ijk"
      by (rule in_voxel_range_in_grid)
    obtain i j k where ijk: "ijk = (i, j, k)" by (cases ijk)
    have "\<exists>g2. grid_set g1 ijk = Inr g2" if "grid_shape (nat res) g1" for g1
      using grid_set_in_grid [OF that in_grid_nat [OF ing [unfolded ijk]]] ijk by blast
    with ing show "in_grid res ijk \<and>
        (\<forall>g1. grid_shape (nat res) g1 \<longrightarrow> (\<exists>g2. grid_set g1 ijk = Inr g2))"
      by blast
  qed
  have empty: "enumerated_voxels ?vmin ?vmax = [] \<and> rasterize_triangle mn vs res tri g = Inr g"
    if "axis0 ?vmax < axis0 ?vmin \<or> axis1 ?vmax < axis1 ?vmin \<or> axis2 ?vmax < axis2 ?vmin"
    using enumerated_voxels_empty [OF that]
    by (simp add: rasterize_triangle_enumerated)
  show ?thesis
    using rasterize_triangle_enumerated [of mn vs res tri g] lo hi cells
      rasterize_triangle_no_error [of res g mn vs tri] empty
    by blast
qed

theorem writes_in_bounds_witness:
  "(0, 0, 0) \<in> set (enumerated_voxels
      (voxel_min_of (0, 0, 0) (Fin 1, Fin 1, Fin 1) ((0, 0, 0), (1, 0, 0), (0, 1, 1)))
      (voxel_max_of (0, 0, 0) (Fin 1, Fin 1, Fin 1) 1 ((0, 0, 0), (1, 0, 0), (0, 1, 1)))) \<and>
   in_grid 1 (0, 0, 0) \<and>
   grid_shape (nat 1) [[[False]]] \<and>
   (\<exists>g2. grid_set [[[False]]] (0, 0, 0) = Inr g2) \<and>
   (\<exists>g'. rasterize_triangle (0, 0, 0) (Fin 1, Fin 1, Fin 1) 1
           ((0, 0, 0), (1, 0, 0), (0, 1, 1)) [[[False]]] = Inr g' \<and> grid_shape (nat 1) g') \<and>
   axis0 (voxel_max_of (0, 0, 0) (Fin 1, Fin 1, Fin 1) 1 ((1, 0, 0), (1, 1, 0), (1, 0, 1)))
     < axis0 (voxel_min_of (0, 0, 0) (Fin 1, Fin 1, Fin 1) ((1, 0, 0), (1, 1, 0), (1, 0, 1))) \<and>
   rasterize_triangle (0, 0, 0) (Fin 1, Fin 1, Fin 1) 1
     ((1, 0, 0), (1, 1, 0), (1, 0, 1)) [[[False]]] = Inr [[[False]]]"
proof -
  let ?vs = "(Fin 1, Fin 1, Fin 1) :: fvec3"
  let ?t1 = "((0, 0, 0), (1, 0, 0), (0, 1, 1)) :: triangle"
  let ?t2 = "((1, 0, 0), (1, 1, 0), (1, 0, 1)) :: triangle"
  have mem: "(0, 0, 0) \<in> set (enumerated_voxels (voxel_min_of (0, 0, 0) ?vs ?t1)
      (voxel_max_of (0, 0, 0) ?vs 1 ?t1))"
    by (simp add: enumerated_voxels_def voxel_eval)
  have shape: "grid_shape (nat 1) [[[False]]]"
    by (simp add: grid_shape_def)
  have empty: "axis0 (voxel_max_of (0, 0, 0) ?vs 1 ?t2) < axis0 (voxel_min_of (0, 0, 0) ?vs ?t2)"
    by (simp add: voxel_eval)
  note w1 = writes_in_bounds [of "(0, 0, 0)" ?vs 1 ?t1 "[[[False]]]"]
  note w2 = writes_in_bounds [of "(0, 0, 0)" ?vs 1 ?t2 "[[[False]]]"]
  have a: "in_grid 1 (0, 0, 0)" "\<exists>g2. grid_set [[[False]]] (0, 0, 0) = Inr g2"
    using w1 mem shape by blast+
  have b: "\<exists>g'. rasterize_triangle (0, 0, 0) ?vs 1 ?t1 [[[False]]] = Inr g' \<and> grid_shape (nat 1) g'"
    using w1 shape by blast
  have c: "rasterize_triangle (0, 0, 0) ?vs 1 ?t2 [[[False]]] = Inr [[[False]]]"
    using w2 empty by blast
  show ?thesis
    by (intro conjI mem a shape b empty c)
qed

end
